theory Spec2Isabelle
  imports Complex_Main
begin

section \<open>JavaScript values used by server.js\<close>

text \<open>
  A JavaScript number is modelled as a real, with \<open>None\<close> for NaN. A property that is
  absent reads as \<open>undefined\<close>, which arithmetic turns into NaN and which is falsy like NaN,
  so an absent numeric property is \<open>None\<close> as well.
\<close>

type_synonym jsnum = "real option"

definition truthy :: "jsnum \<Rightarrow> bool" where
  "truthy v = (case v of None \<Rightarrow> False | Some r \<Rightarrow> r \<noteq> 0)"

definition js_mul :: "jsnum \<Rightarrow> jsnum \<Rightarrow> jsnum" where
  "js_mul a b = (case a of None \<Rightarrow> None | Some u \<Rightarrow> (case b of None \<Rightarrow> None | Some v \<Rightarrow> Some (u * v)))"

definition js_add :: "jsnum \<Rightarrow> jsnum \<Rightarrow> jsnum" where
  "js_add a b = (case a of None \<Rightarrow> None | Some u \<Rightarrow> (case b of None \<Rightarrow> None | Some v \<Rightarrow> Some (u + v)))"

definition js_div :: "jsnum \<Rightarrow> real \<Rightarrow> jsnum" where
  \<comment> \<open>division by a nonzero literal\<close>
  "js_div a d = (case a of None \<Rightarrow> None | Some u \<Rightarrow> Some (u / d))"

definition Math_sqrt :: "jsnum \<Rightarrow> jsnum" where
  "Math_sqrt a = (case a of None \<Rightarrow> None | Some u \<Rightarrow> if u < 0 then None else Some (sqrt u))"

definition Math_max :: "real \<Rightarrow> jsnum \<Rightarrow> jsnum" where
  "Math_max c a = (case a of None \<Rightarrow> None | Some u \<Rightarrow> Some (max c u))"

definition Math_min :: "real \<Rightarrow> jsnum \<Rightarrow> jsnum" where
  "Math_min c a = (case a of None \<Rightarrow> None | Some u \<Rightarrow> Some (min c u))"

definition Math_round :: "jsnum \<Rightarrow> jsnum" where
  "Math_round a = (case a of None \<Rightarrow> None | Some u \<Rightarrow> Some (of_int \<lfloor>u + 1 / 2\<rfloor>))"

section \<open>Detections and the two renderers\<close>

text \<open>One element of \<open>output.predictions.predictions\<close>: the object's numeric properties.\<close>

record detection =
  pred_x :: jsnum
  pred_y :: jsnum
  pred_width :: jsnum
  pred_height :: jsnum
  pred_confidence :: jsnum

text \<open>
  An array element of the service's JSON is an object or \<open>null\<close>; reading a property of
  \<open>null\<close> throws a TypeError.
\<close>

datatype prediction = PNull | PObj detection

text \<open>The calls made on the 2D context, in order; these stand for the rendered image.\<close>

datatype canvas_op =
    DrawImage
  | PeopleBox nat
  | Arc real real jsnum
  | FillText jsnum jsnum real
  | Gradient real real real

definition nullPropertyError :: string where
  "nullPropertyError = ''Cannot read properties of null''"

definition dotSizeOf :: "detection \<Rightarrow> jsnum" where
  \<comment> \<open>\<open>Math.min(20, Math.max(5, Math.sqrt(pred.width * pred.height) / 5))\<close>\<close>
  "dotSizeOf p = Math_min 20 (Math_max 5 (js_div (Math_sqrt (js_mul (pred_width p) (pred_height p))) 5))"

text \<open>The body of the \<open>try\<close> inside \<open>predictions.forEach\<close> of \<open>drawDotsOnImage\<close>.\<close>

fun drawDot :: "prediction \<Rightarrow> string + canvas_op list" where
  "drawDot PNull = Inl nullPropertyError"
| "drawDot (PObj p) =
     (let x = pred_x p;
          y = pred_y p;
          dotSize = dotSizeOf p
      in if truthy x \<and> truthy y
         then (case x of None \<Rightarrow> Inr [] | Some vx \<Rightarrow>
               (case y of None \<Rightarrow> Inr [] | Some vy \<Rightarrow>
                  Inr [Arc vx vy dotSize,
                       FillText (Math_round (js_mul (pred_confidence p) (Some 100)))
                                (js_add (js_add x dotSize) (Some 2)) vy]))
         else Inr [])"

text \<open>One iteration of the \<open>forEach\<close>: the \<open>catch\<close> logs a warning and goes on.\<close>

definition drawDotCaught :: "prediction \<Rightarrow> canvas_op list" where
  "drawDotCaught p = (case drawDot p of Inl err \<Rightarrow> [] | Inr ops \<Rightarrow> ops)"

text \<open>
  \<open>sharp(imageBuffer).toBuffer()\<close> and \<open>loadImage\<close> belong to libraries: \<open>decode\<close> gives
  their result on the frame, the error message when they throw or the image's width and
  height.
\<close>

type_synonym decoder = "string \<Rightarrow> string + (nat \<times> nat)"

definition drawDotsOnImage :: "decoder \<Rightarrow> string \<Rightarrow> prediction list \<Rightarrow> string + canvas_op list" where
  "drawDotsOnImage decode imageBuffer predictions =
     (case decode imageBuffer of
        Inl err \<Rightarrow> Inl err
      | Inr img \<Rightarrow> Inr ([DrawImage, PeopleBox (length predictions)] @ concat (map drawDotCaught predictions)))"

text \<open>The callback of \<open>predictions.forEach\<close> in \<open>generateHeatmap\<close>; it has no \<open>try\<close>.\<close>

fun heatSpot :: "real \<Rightarrow> prediction \<Rightarrow> string + canvas_op list" where
  "heatSpot radius PNull = Inl nullPropertyError"
| "heatSpot radius (PObj p) =
     (if truthy (pred_x p) \<and> truthy (pred_y p)
      then (case pred_x p of None \<Rightarrow> Inr [] | Some vx \<Rightarrow>
            (case pred_y p of None \<Rightarrow> Inr [] | Some vy \<Rightarrow> Inr [Gradient vx vy radius]))
      else Inr [])"

fun heatSpots :: "real \<Rightarrow> prediction list \<Rightarrow> string + canvas_op list" where
  "heatSpots radius [] = Inr []"
| "heatSpots radius (p # ps) =
     (case heatSpot radius p of
        Inl err \<Rightarrow> Inl err
      | Inr ops \<Rightarrow> (case heatSpots radius ps of Inl err \<Rightarrow> Inl err | Inr rest \<Rightarrow> Inr (ops @ rest)))"

definition generateHeatmap :: "decoder \<Rightarrow> string \<Rightarrow> prediction list \<Rightarrow> string + canvas_op list" where
  "generateHeatmap decode imageBuffer predictions =
     (case decode imageBuffer of
        Inl err \<Rightarrow> Inl err
      | Inr img \<Rightarrow>
          (case heatSpots (real (min (fst img) (snd img)) * (1 / 10)) predictions of
             Inl err \<Rightarrow> Inl err
           | Inr ops \<Rightarrow> Inr (DrawImage # ops)))"

section \<open>The inference response\<close>

text \<open>
  \<open>rf.outputs?.[0]\<close>: \<open>count_objects\<close> is \<open>None\<close> when the property is absent or null,
  \<open>predictions\<close> is \<open>None\<close> when \<open>output.predictions?.predictions\<close> is.
\<close>

record rf_output =
  count_objects :: "int option"
  predictions :: "prediction list option"

definition predictionsOf :: "rf_output option \<Rightarrow> prediction list" where
  \<comment> \<open>\<open>(rf.outputs?.[0] || {}).predictions?.predictions || []\<close>\<close>
  "predictionsOf out =
     (case out of None \<Rightarrow> [] | Some ou \<Rightarrow> (case predictions ou of None \<Rightarrow> [] | Some ps \<Rightarrow> ps))"

definition frameCount :: "rf_output option \<Rightarrow> int" where
  \<comment> \<open>\<open>output.count_objects || predictions.length\<close>, in \<open>processFrameAndEmit\<close>\<close>
  "frameCount out =
     (case (case out of None \<Rightarrow> None | Some ou \<Rightarrow> count_objects ou) of
        None \<Rightarrow> int (length (predictionsOf out))
      | Some c \<Rightarrow> if c \<noteq> 0 then c else int (length (predictionsOf out)))"

definition predictCount :: "rf_output option \<Rightarrow> int" where
  \<comment> \<open>\<open>output.count_objects ?? 0\<close>, in the \<open>/predict\<close> route\<close>
  "predictCount out =
     (case (case out of None \<Rightarrow> None | Some ou \<Rightarrow> count_objects ou) of
        None \<Rightarrow> 0
      | Some c \<Rightarrow> c)"

section \<open>Events, effects and the state of the server\<close>

text \<open>
  What a client sends as \<open>imageBase64\<close>: nothing (or a falsy value), \<open>Missing\<close>; a value
  that \<open>Buffer.from(v, 'base64')\<close> accepts, \<open>Text\<close>, which is a string or else an array or a
  buffer, given by its content; or a truthy value for which \<open>Buffer.from\<close> throws a
  TypeError, \<open>Other\<close>, such as a number, \<open>true\<close> or a plain object.
\<close>

datatype field = Missing | Text string | Other

definition truthyField :: "field \<Rightarrow> bool" where
  "truthyField f = (case f of Missing \<Rightarrow> False | Text t \<Rightarrow> t \<noteq> [] | Other \<Rightarrow> True)"

definition bufferFromError :: string where
  "bufferFromError = ''The first argument must be of type string or an instance of Buffer, ArrayBuffer, or Array or an Array-like Object.''"

text \<open>A socket is identified by a number.\<close>

type_synonym socket = nat

type_synonym entry = "socket \<times> field"

datatype message =
    Ack
  | PredictionOk int "canvas_op list" "canvas_op list" "prediction list" "int option"
  | PredictionFail string
  | Alert int "int option"
  | ThresholdUpdated "int option"

datatype target = To socket | Broadcast

text \<open>
  The effects of the server in the order they happen: \<open>socket.emit\<close> and \<open>io.emit\<close>,
  \<open>queue.push\<close>, \<open>queue.shift\<close> and the call of \<open>callRoboflowWithBase64\<close>.
\<close>

datatype action = Emit target message | Push entry | Shift entry | Call socket string

text \<open>
  The module's variables, the calls of \<open>callRoboflowWithBase64\<close> that are awaited
  (\<open>calls\<close>) and the effects so far (\<open>trace\<close>). \<open>ALERT_THRESHOLD\<close> is \<open>None\<close> when it is
  NaN.
\<close>

record state =
  ALERT_THRESHOLD :: "int option"
  lastAlertTime :: int
  inFlight :: int
  queue :: "entry list"
  calls :: "(socket \<times> string) list"
  trace :: "action list"

text \<open>
  \<open>MAX_CONCURRENT\<close> is \<open>Number(process.env.MAX_CONCURRENT || 2)\<close>, which can be any
  double: a fraction, a negative number, an infinity or NaN. The counter is compared with
  it by \<open>>=\<close> and by \<open><\<close>, and both are false against NaN.
\<close>

datatype jsdouble = NaN | Finite real | PosInfinity | NegInfinity

definition js_ge :: "int \<Rightarrow> jsdouble \<Rightarrow> bool" where
  "js_ge i d =
     (case d of NaN \<Rightarrow> False | Finite r \<Rightarrow> r \<le> of_int i | PosInfinity \<Rightarrow> False | NegInfinity \<Rightarrow> True)"

definition js_lt :: "int \<Rightarrow> jsdouble \<Rightarrow> bool" where
  "js_lt i d =
     (case d of NaN \<Rightarrow> False | Finite r \<Rightarrow> of_int i < r | PosInfinity \<Rightarrow> True | NegInfinity \<Rightarrow> False)"

record config =
  MAX_CONCURRENT :: jsdouble
  decode :: decoder

section \<open>Alerting and threshold updates\<close>

definition ALERT_COOLDOWN :: int where
  "ALERT_COOLDOWN = 5 * 60 * 1000"

definition initial :: state where
  "initial = \<lparr>ALERT_THRESHOLD = Some 15, lastAlertTime = 0, inFlight = 0, queue = [], calls = [], trace = []\<rparr>"

definition emit :: "target \<Rightarrow> message \<Rightarrow> state \<Rightarrow> state" where
  "emit t m s = s\<lparr>trace := trace s @ [Emit t m]\<rparr>"

definition alertDue :: "int \<Rightarrow> int \<Rightarrow> state \<Rightarrow> bool" where
  \<comment> \<open>\<open>count >= ALERT_THRESHOLD && Date.now() - lastAlertTime > ALERT_COOLDOWN\<close>\<close>
  "alertDue count now s =
     ((case ALERT_THRESHOLD s of None \<Rightarrow> False | Some t \<Rightarrow> t \<le> count) \<and> now - lastAlertTime s > ALERT_COOLDOWN)"

definition alertCheck :: "int \<Rightarrow> int \<Rightarrow> state \<Rightarrow> state" where
  "alertCheck count now s =
     (if alertDue count now s
      then emit Broadcast (Alert count (ALERT_THRESHOLD s)) (s\<lparr>lastAlertTime := now\<rparr>)
      else s)"

text \<open>
  \<open>data.threshold\<close> of an \<open>updateThreshold\<close> event: absent (or null), a number or a
  string. Numbers are integers small enough that their decimal string is exact.
\<close>

datatype threshold_field = TAbsent | TNum int | TStr string

definition truthyThreshold :: "threshold_field \<Rightarrow> bool" where
  "truthyThreshold t = (case t of TAbsent \<Rightarrow> False | TNum n \<Rightarrow> n \<noteq> 0 | TStr str \<Rightarrow> str \<noteq> [])"

text \<open>
  \<open>parseInt\<close> with no radix, as ECMAScript defines it: leading white space and one sign are
  skipped, a \<open>0x\<close> prefix selects radix 16, the longest prefix of digits is read and an
  empty one gives NaN. A character is a code unit below 256, so the white space is the
  tab, the line breaks, the space and the no-break space; the value read is the exact
  integer, which is the code's double for every digit string below \<open>2 ^ 53\<close>.
\<close>

definition isWhiteSpace :: "char \<Rightarrow> bool" where
  "isWhiteSpace c = (of_char c \<in> {9, 10, 11, 12, 13, 32, 160 :: nat})"

definition digitValue :: "char \<Rightarrow> nat" where
  "digitValue c =
     (let n = of_char c :: nat
      in if 48 \<le> n \<and> n \<le> 57 then n - 48
         else if 97 \<le> n \<and> n \<le> 122 then n - 87
         else if 65 \<le> n \<and> n \<le> 90 then n - 55
         else 36)"

definition parseIntString :: "string \<Rightarrow> int option" where
  "parseIntString str =
     (let s1 = dropWhile isWhiteSpace str;
          sign = (if take 1 s1 = ''-'' then - 1 else 1 :: int);
          s2 = (if take 1 s1 = ''-'' \<or> take 1 s1 = ''+'' then drop 1 s1 else s1);
          hex = (take 2 s2 = ''0x'' \<or> take 2 s2 = ''0X'');
          radix = (if hex then 16 else 10 :: nat);
          s3 = (if hex then drop 2 s2 else s2);
          z = takeWhile (\<lambda>c. digitValue c < radix) s3
      in if z = [] then None
         else Some (sign * int (foldl (\<lambda>acc c. acc * radix + digitValue c) 0 z)))"

definition parseInt :: "threshold_field \<Rightarrow> int option" where
  "parseInt t = (case t of TAbsent \<Rightarrow> None | TNum n \<Rightarrow> Some n | TStr str \<Rightarrow> parseIntString str)"

definition updateThreshold :: "threshold_field option \<Rightarrow> state \<Rightarrow> state" where
  \<comment> \<open>\<open>socket.on('updateThreshold', ...)\<close>; \<open>None\<close> is a falsy \<open>data\<close>\<close>
  "updateThreshold data s =
     (case data of
        None \<Rightarrow> s
      | Some t \<Rightarrow>
          if truthyThreshold t
          then emit Broadcast (ThresholdUpdated (parseInt t)) (s\<lparr>ALERT_THRESHOLD := parseInt t\<rparr>)
          else s)"

section \<open>The dispatcher\<close>

text \<open>The \<open>catch\<close> of \<open>processFrameAndEmit\<close>, for an error with message \<open>msg\<close>.\<close>

definition thrown :: "string \<Rightarrow> state \<Rightarrow> state" where
  \<comment> \<open>\<open>io.emit('prediction', {success: false, error: err.message || 'Inference error'})\<close>\<close>
  "thrown msg s = emit Broadcast (PredictionFail (if msg = [] then ''Inference error'' else msg)) s"

text \<open>
  The \<open>try\<close> block from the point where the awaited call settles, with its \<open>catch\<close>: \<open>rf\<close>
  is the error message of a rejected call or the first output of the response, \<open>now\<close> is
  what \<open>Date.now()\<close> returns, in its condition and in its assignment alike. The block is
  one step: the awaits inside the two renderers write none of the module's variables, and
  an \<open>updateThreshold\<close> event that arrives during them is taken to arrive after the
  block, so the \<open>threshold\<close> of the payload is the one the alert check saw.
\<close>

definition afterCall :: "config \<Rightarrow> string \<Rightarrow> string + rf_output option \<Rightarrow> int \<Rightarrow> state \<Rightarrow> state" where
  "afterCall cfg frameBase64 rf now s =
     (case rf of
        Inl msg \<Rightarrow> thrown msg s
      | Inr out \<Rightarrow>
          (let preds = predictionsOf out;
               count = frameCount out;
               s1 = alertCheck count now s
           in case drawDotsOnImage (decode cfg) frameBase64 preds of
                Inl msg \<Rightarrow> thrown msg s1
              | Inr processedImage \<Rightarrow>
                  (case generateHeatmap (decode cfg) frameBase64 preds of
                     Inl msg \<Rightarrow> thrown msg s1
                   | Inr heatmapImage \<Rightarrow>
                       emit Broadcast
                         (PredictionOk count processedImage heatmapImage preds (ALERT_THRESHOLD s1)) s1)))"

text \<open>
  \<open>processFrameAndEmit\<close> up to its first \<open>await\<close>, and its \<open>finally\<close> block. When
  \<open>Buffer.from\<close> throws, the \<open>catch\<close> and the \<open>finally\<close> run at once, and the \<open>finally\<close>
  calls \<open>processFrameAndEmit\<close> on the entry it shifts.
\<close>

function processFrameAndEmit :: "config \<Rightarrow> entry \<Rightarrow> state \<Rightarrow> state"
  and finallyBlock :: "config \<Rightarrow> state \<Rightarrow> state" where
  "processFrameAndEmit cfg e s =
     (if js_ge (inFlight s) (MAX_CONCURRENT cfg)
      then s\<lparr>queue := queue s @ [e], trace := trace s @ [Push e]\<rparr>
      else (case snd e of
              Text frameBase64 \<Rightarrow>
                s\<lparr>inFlight := inFlight s + 1,
                  calls := calls s @ [(fst e, frameBase64)],
                  trace := trace s @ [Call (fst e) frameBase64]\<rparr>
            | _ \<Rightarrow> finallyBlock cfg (thrown bufferFromError (s\<lparr>inFlight := inFlight s + 1\<rparr>))))"
| "finallyBlock cfg s =
     (case queue s of
        [] \<Rightarrow> s\<lparr>inFlight := inFlight s - 1\<rparr>
      | next # rest \<Rightarrow>
          if js_lt (inFlight s - 1) (MAX_CONCURRENT cfg)
          then processFrameAndEmit cfg next
                 (s\<lparr>inFlight := inFlight s - 1, queue := rest, trace := trace s @ [Shift next]\<rparr>)
          else s\<lparr>inFlight := inFlight s - 1\<rparr>)"
  by pat_completeness auto
termination
  by (relation "measure (\<lambda>a. case a of Inl (cfg, e, s) \<Rightarrow> 2 * length (queue s) + 1
                                    | Inr (cfg, s) \<Rightarrow> 2 * length (queue s))")
     (auto simp: thrown_def emit_def)

declare processFrameAndEmit.simps [simp del] finallyBlock.simps [simp del]

definition frameHandler :: "config \<Rightarrow> socket \<Rightarrow> field option \<Rightarrow> state \<Rightarrow> state" where
  \<comment> \<open>\<open>socket.on('frame', ...)\<close>; \<open>None\<close> is a falsy \<open>data\<close>, \<open>Some f\<close> has \<open>data.imageBase64 = f\<close>\<close>
  "frameHandler cfg sock data s =
     (case data of
        None \<Rightarrow> emit (To sock) (PredictionFail ''No frame provided'') s
      | Some f \<Rightarrow>
          if \<not> truthyField f then emit (To sock) (PredictionFail ''No frame provided'') s
          else if length (queue s) > 60
          then emit (To sock) (PredictionFail ''Server busy, frame dropped'') s
          else processFrameAndEmit cfg (sock, f) (emit (To sock) Ack s))"

text \<open>
  The awaited call number \<open>i\<close> settles: the rest of the \<open>try\<close> block and the \<open>finally\<close>
  block run. Nothing happens when there is no such call.
\<close>

definition settle :: "config \<Rightarrow> nat \<Rightarrow> string + rf_output option \<Rightarrow> int \<Rightarrow> state \<Rightarrow> state" where
  "settle cfg i rf now s =
     (if i < length (calls s)
      then finallyBlock cfg
             (afterCall cfg (snd (calls s ! i)) rf now
                (s\<lparr>calls := take i (calls s) @ drop (Suc i) (calls s)\<rparr>))
      else s)"

datatype event =
    Frame socket "field option"
  | UpdateThreshold "threshold_field option"
  | Settled nat "string + rf_output option" int

fun step :: "config \<Rightarrow> event \<Rightarrow> state \<Rightarrow> state" where
  "step cfg (Frame sock data) s = frameHandler cfg sock data s"
| "step cfg (UpdateThreshold data) s = updateThreshold data s"
| "step cfg (Settled i rf now) s = settle cfg i rf now s"

definition run :: "config \<Rightarrow> event list \<Rightarrow> state" where
  "run cfg evs = fold (step cfg) evs initial"

section \<open>Notions used to state the properties\<close>

text \<open>The entries pushed on the backlog and those shifted off it, in the order of the trace.\<close>

definition pushed :: "action list \<Rightarrow> entry list" where
  "pushed tr = concat (map (\<lambda>a. case a of Push e \<Rightarrow> [e] | _ \<Rightarrow> []) tr)"

definition shifted :: "action list \<Rightarrow> entry list" where
  "shifted tr = concat (map (\<lambda>a. case a of Shift e \<Rightarrow> [e] | _ \<Rightarrow> []) tr)"

text \<open>The alert check run on a list of counts, each with its clock reading.\<close>

definition alertChecks :: "(int \<times> int) list \<Rightarrow> state \<Rightarrow> state" where
  "alertChecks xs s = fold (\<lambda>(count, now). alertCheck count now) xs s"

text \<open>
  The configuration when the environment sets no \<open>MAX_CONCURRENT\<close>, and a decoder for
  which every frame is a 640 by 480 image.
\<close>

definition defaultConfig :: "decoder \<Rightarrow> config" where
  "defaultConfig d = \<lparr>MAX_CONCURRENT = Finite 2, decode = d\<rparr>"

definition vga :: decoder where
  "vga b = Inr (640, 480)"

section \<open>Invariants of the dispatcher\<close>

subsection \<open>What each piece leaves alone\<close>

lemma emit_fields [simp]:
  "inFlight (emit t m s) = inFlight s" "queue (emit t m s) = queue s"
  "calls (emit t m s) = calls s" "ALERT_THRESHOLD (emit t m s) = ALERT_THRESHOLD s"
  "lastAlertTime (emit t m s) = lastAlertTime s"
  "trace (emit t m s) = trace s @ [Emit t m]"
  by (simp_all add: emit_def)

lemma pushed_simps [simp]:
  "pushed [] = []" "pushed (tr @ [Push e]) = pushed tr @ [e]"
  "pushed (tr @ [Shift e]) = pushed tr" "pushed (tr @ [Emit t m]) = pushed tr"
  "pushed (tr @ [Call sock b]) = pushed tr"
  by (simp_all add: pushed_def)

lemma shifted_simps [simp]:
  "shifted [] = []" "shifted (tr @ [Shift e]) = shifted tr @ [e]"
  "shifted (tr @ [Push e]) = shifted tr" "shifted (tr @ [Emit t m]) = shifted tr"
  "shifted (tr @ [Call sock b]) = shifted tr"
  by (simp_all add: shifted_def)

lemma alertCheck_fields [simp]:
  "inFlight (alertCheck c now s) = inFlight s" "queue (alertCheck c now s) = queue s"
  "calls (alertCheck c now s) = calls s" "ALERT_THRESHOLD (alertCheck c now s) = ALERT_THRESHOLD s"
  "pushed (trace (alertCheck c now s)) = pushed (trace s)"
  "shifted (trace (alertCheck c now s)) = shifted (trace s)"
  by (simp_all add: alertCheck_def)

lemma thrown_fields [simp]:
  "inFlight (thrown msg s) = inFlight s" "queue (thrown msg s) = queue s"
  "calls (thrown msg s) = calls s"
  "pushed (trace (thrown msg s)) = pushed (trace s)"
  "shifted (trace (thrown msg s)) = shifted (trace s)"
  by (simp_all add: thrown_def)

lemma afterCall_fields [simp]:
  "inFlight (afterCall cfg b rf now s) = inFlight s" "queue (afterCall cfg b rf now s) = queue s"
  "calls (afterCall cfg b rf now s) = calls s"
  "pushed (trace (afterCall cfg b rf now s)) = pushed (trace s)"
  "shifted (trace (afterCall cfg b rf now s)) = shifted (trace s)"
  by (simp_all add: afterCall_def Let_def split: sum.splits)

lemma updateThreshold_fields [simp]:
  "inFlight (updateThreshold d s) = inFlight s" "queue (updateThreshold d s) = queue s"
  "calls (updateThreshold d s) = calls s"
  "pushed (trace (updateThreshold d s)) = pushed (trace s)"
  "shifted (trace (updateThreshold d s)) = shifted (trace s)"
  by (simp_all add: updateThreshold_def split: option.splits)

lemma run_invariant:
  assumes "P initial" and "\<And>ev s. P s \<Longrightarrow> P (step cfg ev s)"
  shows "P (run cfg evs)"
proof -
  have "P s \<Longrightarrow> P (fold (step cfg) evs s)" for s
    by (induction evs arbitrary: s) (simp_all add: assms(2))
  then show ?thesis by (simp add: run_def assms(1))
qed

subsection \<open>Slots\<close>



subsection \<open>Bound on the counter\<close>

lemma js_compare_simps [simp]:
  "js_ge i (Finite r) = (r \<le> of_int i)" "js_lt i (Finite r) = (of_int i < r)"
  "js_ge i NaN = False" "js_lt i NaN = False"
  "js_ge i PosInfinity = False" "js_lt i PosInfinity = True"
  "js_ge i NegInfinity = True" "js_lt i NegInfinity = False"
  by (simp_all add: js_ge_def js_lt_def)

lemma js_lt_not_ge: "js_lt i d \<Longrightarrow> \<not> js_ge i d"
  by (cases d) simp_all

lemma slots_bounded:
  "MAX_CONCURRENT cfg = Finite (of_int m) \<Longrightarrow> inFlight s \<le> m \<Longrightarrow>
     inFlight (processFrameAndEmit cfg e s) \<le> m"
  "MAX_CONCURRENT cfg = Finite (of_int m) \<Longrightarrow> inFlight s \<le> m + 1 \<Longrightarrow>
     inFlight (finallyBlock cfg s) \<le> m"
proof (induction cfg e s and cfg s rule: processFrameAndEmit_finallyBlock.induct)
  case (1 cfg e s)
  then show ?case
    by (cases "snd e") (simp_all add: processFrameAndEmit.simps [of cfg e s])
next
  case (2 cfg s)
  then show ?case
    by (cases "queue s") (simp_all add: finallyBlock.simps [of cfg s])
qed

lemma step_bounded:
  "MAX_CONCURRENT cfg = Finite (of_int m) \<Longrightarrow> inFlight s \<le> m \<Longrightarrow> inFlight (step cfg ev s) \<le> m"
  by (cases ev) (simp_all add: frameHandler_def settle_def slots_bounded split: option.splits)

subsection \<open>Bound on the backlog\<close>

lemma backlog_growth:
  "length (queue (processFrameAndEmit cfg e s)) \<le>
     (if js_lt (inFlight s) (MAX_CONCURRENT cfg) then length (queue s) else Suc (length (queue s)))"
  "length (queue (finallyBlock cfg s)) \<le> length (queue s)"
proof (induction cfg e s and cfg s rule: processFrameAndEmit_finallyBlock.induct)
  case (1 cfg e s)
  show ?case
  proof (cases "js_ge (inFlight s) (MAX_CONCURRENT cfg)")
    case True
    then have "\<not> js_lt (inFlight s) (MAX_CONCURRENT cfg)"
      using js_lt_not_ge by blast
    with True show ?thesis by (simp add: processFrameAndEmit.simps [of cfg e s])
  next
    case False
    show ?thesis
    proof (cases "snd e")
      case Missing
      with False 1(1) show ?thesis by (simp add: processFrameAndEmit.simps [of cfg e s])
    next
      case (Text b)
      with False show ?thesis by (simp add: processFrameAndEmit.simps [of cfg e s])
    next
      case Other
      with False 1(2) show ?thesis by (simp add: processFrameAndEmit.simps [of cfg e s])
    qed
  qed
next
  case (2 cfg s)
  show ?case
  proof (cases "queue s")
    case Nil
    then show ?thesis by (simp add: finallyBlock.simps [of cfg s])
  next
    case (Cons nxt rest)
    show ?thesis
    proof (cases "js_lt (inFlight s - 1) (MAX_CONCURRENT cfg)")
      case True
      from 2 [OF Cons True] True
      have "length (queue (processFrameAndEmit cfg nxt
              (s\<lparr>inFlight := inFlight s - 1, queue := rest, trace := trace s @ [Shift nxt]\<rparr>))) \<le> length rest"
        by simp
      with Cons True show ?thesis by (simp add: finallyBlock.simps [of cfg s])
    next
      case False
      with Cons show ?thesis by (simp add: finallyBlock.simps [of cfg s])
    qed
  qed
qed

lemma step_backlog:
  assumes b: "length (queue s) \<le> 61"
  shows "length (queue (step cfg ev s)) \<le> 61"
proof (cases ev)
  case (Frame sock data)
  show ?thesis
  proof (cases "\<exists>f. data = Some f \<and> truthyField f \<and> length (queue s) \<le> 60")
    case True
    then obtain f where f: "data = Some f" "truthyField f" "length (queue s) \<le> 60" by blast
    have "length (queue (processFrameAndEmit cfg (sock, f) (emit (To sock) Ack s)))
            \<le> Suc (length (queue (emit (To sock) Ack s)))"
      using backlog_growth(1) [of cfg "(sock, f)" "emit (To sock) Ack s"]
      by (simp split: if_splits)
    with f show ?thesis unfolding Frame by (simp add: frameHandler_def)
  next
    case False
    with b show ?thesis unfolding Frame
      by (cases data) (auto simp add: frameHandler_def not_less)
  qed
next
  case (UpdateThreshold data)
  with b show ?thesis by simp
next
  case (Settled i rf now)
  have "length (queue (finallyBlock cfg t)) \<le> length (queue t)" for t
    by (rule backlog_growth(2))
  from this [of "afterCall cfg (snd (calls s ! i)) rf now (s\<lparr>calls := take i (calls s) @ drop (Suc i) (calls s)\<rparr>)"]
  show ?thesis using b unfolding Settled by (simp add: settle_def)
qed

subsection \<open>Order of the backlog\<close>



section \<open>The claims\<close>



text \<open>
  C2, as the code has it. When \<open>MAX_CONCURRENT\<close> is an integer that is not negative, as
  the default 2 is, \<open>inFlight\<close> never exceeds it in any state the server reaches. Whatever
  \<open>MAX_CONCURRENT\<close> is, a submission for which \<open>inFlight >= MAX_CONCURRENT\<close> holds is pushed
  on the backlog and nothing else happens, and one for which it does not hold has the
  counter incremented in the same step in which its call begins.
\<close>

theorem inFlight_never_exceeds_integer_max:
  "(MAX_CONCURRENT cfg = Finite (of_int m) \<and> 0 \<le> m \<longrightarrow> inFlight (run cfg evs) \<le> m) \<and>
   (js_ge (inFlight s) (MAX_CONCURRENT cfg) \<longrightarrow>
      processFrameAndEmit cfg e s = s\<lparr>queue := queue s @ [e], trace := trace s @ [Push e]\<rparr>) \<and>
   (\<not> js_ge (inFlight s') (MAX_CONCURRENT cfg) \<longrightarrow>
      processFrameAndEmit cfg (sock, Text b) s' =
        s'\<lparr>inFlight := inFlight s' + 1, calls := calls s' @ [(sock, b)],
           trace := trace s' @ [Call sock b]\<rparr>)"
proof -
  have "inFlight (run cfg evs) \<le> m" if c: "MAX_CONCURRENT cfg = Finite (of_int m)" and m: "0 \<le> m"
    by (rule run_invariant) (simp_all add: initial_def m step_bounded [OF c])
  then show ?thesis
    by (simp add: processFrameAndEmit.simps [of cfg e s]
        processFrameAndEmit.simps [of cfg "(sock, Text b)" s'])
qed

theorem inFlight_never_exceeds_integer_max_witness:
  "MAX_CONCURRENT (defaultConfig vga) = Finite (of_int 2) \<and> (0::int) \<le> 2 \<and>
   inFlight (run (defaultConfig vga)
      [Frame 1 (Some (Text ''a'')), Frame 2 (Some (Text ''b'')), Frame 3 (Some (Text ''c''))]) = 2 \<and>
   js_ge (inFlight (initial\<lparr>inFlight := 2\<rparr>)) (MAX_CONCURRENT (defaultConfig vga)) \<and>
   processFrameAndEmit (defaultConfig vga) (3, Text ''c'') (initial\<lparr>inFlight := 2\<rparr>) =
     initial\<lparr>inFlight := 2, queue := [(3, Text ''c'')], trace := [Push (3, Text ''c'')]\<rparr> \<and>
   \<not> js_ge (inFlight initial) (MAX_CONCURRENT (defaultConfig vga)) \<and>
   processFrameAndEmit (defaultConfig vga) (1, Text ''a'') initial =
     initial\<lparr>inFlight := 1, calls := [(1, ''a'')], trace := [Call 1 ''a'']\<rparr>"
  using inFlight_never_exceeds_integer_max [of "defaultConfig vga" 2
        "[Frame 1 (Some (Text ''a'')), Frame 2 (Some (Text ''b'')), Frame 3 (Some (Text ''c''))]"
        "initial\<lparr>inFlight := 2\<rparr>" "(3, Text ''c'')" initial 1 "''a''"]
  by (simp add: run_def frameHandler_def processFrameAndEmit.simps emit_def truthyField_def
      defaultConfig_def initial_def)

text \<open>
  C2 as stated fails when the environment sets \<open>MAX_CONCURRENT\<close> to 2.5: the third frame
  finds \<open>inFlight = 2\<close>, for which \<open>2 >= 2.5\<close> is false, and is admitted, so three calls
  are in flight, and 3 exceeds 2.5.
\<close>

theorem inFlight_exceeds_fractional_max:
  "inFlight (run \<lparr>MAX_CONCURRENT = Finite (5 / 2), decode = vga\<rparr>
      [Frame 1 (Some (Text ''a'')), Frame 2 (Some (Text ''b'')), Frame 3 (Some (Text ''c''))]) = 3 \<and>
   js_lt 2 (Finite (5 / 2)) \<and> \<not> js_ge 2 (Finite (5 / 2)) \<and> (5 / 2 :: real) < of_int 3 \<and>
   calls (run \<lparr>MAX_CONCURRENT = Finite (5 / 2), decode = vga\<rparr>
      [Frame 1 (Some (Text ''a'')), Frame 2 (Some (Text ''b'')), Frame 3 (Some (Text ''c''))]) =
     [(1, ''a''), (2, ''b''), (3, ''c'')]"
  by (simp add: run_def frameHandler_def processFrameAndEmit.simps emit_def truthyField_def
      initial_def)

text \<open>
  C3, as the code has it. The handler drops a frame when more than 60 entries are in the
  backlog, so the backlog never holds more than 61 entries. A frame with an image that
  arrives while more than 60 are backlogged gets the targeted event
  \<open>prediction{success: false, error: 'Server busy, frame dropped'}\<close> and nothing else
  changes: no ack, same backlog. A frame that arrives while 60 or fewer are backlogged is
  acknowledged and handed to \<open>processFrameAndEmit\<close>.
\<close>

theorem backlog_never_exceeds_61:
  "length (queue (run cfg evs)) \<le> 61 \<and>
   (truthyField f \<and> 60 < length (queue s) \<longrightarrow>
      frameHandler cfg sock (Some f) s =
        s\<lparr>trace := trace s @ [Emit (To sock) (PredictionFail ''Server busy, frame dropped'')]\<rparr>) \<and>
   (truthyField f' \<and> length (queue s') \<le> 60 \<longrightarrow>
      frameHandler cfg sock (Some f') s' =
        processFrameAndEmit cfg (sock, f') (s'\<lparr>trace := trace s' @ [Emit (To sock) Ack]\<rparr>))"
proof -
  have "length (queue (run cfg evs)) \<le> 61"
    by (rule run_invariant) (simp_all add: initial_def step_backlog)
  then show ?thesis
    by (simp add: frameHandler_def emit_def not_less)
qed

theorem backlog_never_exceeds_61_witness:
  "truthyField (Text ''z'') \<and>
   60 < length (queue (initial\<lparr>inFlight := 2, queue := replicate 61 (1, Text ''a'')\<rparr>)) \<and>
   frameHandler (defaultConfig vga) 9 (Some (Text ''z''))
       (initial\<lparr>inFlight := 2, queue := replicate 61 (1, Text ''a'')\<rparr>) =
     initial\<lparr>inFlight := 2, queue := replicate 61 (1, Text ''a''),
       trace := [Emit (To 9) (PredictionFail ''Server busy, frame dropped'')]\<rparr> \<and>
   length (queue initial) \<le> 60 \<and>
   frameHandler (defaultConfig vga) 9 (Some (Text ''z'')) initial =
     initial\<lparr>inFlight := 1, calls := [(9, ''z'')], trace := [Emit (To 9) Ack, Call 9 ''z'']\<rparr> \<and>
   length (queue (run (defaultConfig vga) (replicate 64 (Frame 1 (Some (Text ''a'')))))) \<le> 61"
  using backlog_never_exceeds_61 [of "defaultConfig vga" "replicate 64 (Frame 1 (Some (Text ''a'')))"
      "Text ''z''" "initial\<lparr>inFlight := 2, queue := replicate 61 (1, Text ''a'')\<rparr>" 9
      "Text ''z''" initial]
  by (simp add: truthyField_def initial_def defaultConfig_def processFrameAndEmit.simps)

text \<open>
  C3 as stated fails: after 62 frames with the default two slots, 60 entries are
  backlogged; the next frame is acknowledged and pushed, and the backlog holds 61.
\<close>

theorem backlog_reaches_61:
  "length (queue (run (defaultConfig vga) (replicate 62 (Frame 1 (Some (Text ''a'')))))) = 60 \<and>
   inFlight (run (defaultConfig vga) (replicate 62 (Frame 1 (Some (Text ''a''))))) = 2 \<and>
   trace (frameHandler (defaultConfig vga) 9 (Some (Text ''z''))
            (run (defaultConfig vga) (replicate 62 (Frame 1 (Some (Text ''a''))))))
     = trace (run (defaultConfig vga) (replicate 62 (Frame 1 (Some (Text ''a'')))))
         @ [Emit (To 9) Ack, Push (9, Text ''z'')] \<and>
   length (queue (frameHandler (defaultConfig vga) 9 (Some (Text ''z''))
            (run (defaultConfig vga) (replicate 62 (Frame 1 (Some (Text ''a''))))))) = 61"
  by (simp add: run_def frameHandler_def processFrameAndEmit.simps emit_def truthyField_def
      initial_def defaultConfig_def eval_nat_numeral)



text \<open>
  C5, as the code has it. An alert fires exactly when the count has reached the threshold
  and strictly more than the cooldown of 300000 ms has passed since the last alert; on
  firing, the time of the last alert becomes the present clock reading. With threshold 5
  and the clock at \<open>base\<close> ms, \<open>base\<close> being beyond the cooldown as any real clock is,
  counts 3, 6, 7, 2, 8 at 0 s, 1 s, 2 s, 150 s and 151 s after \<open>base\<close> fire one alert, at
  1 s. After it nothing fires up to and including 301 s, and a count that has reached the
  threshold fires at any time later than 301 s.
\<close>

theorem alert_needs_cooldown_strictly_exceeded:
  assumes "ALERT_COOLDOWN < base"
  shows "alertDue count now s =
      ((\<exists>t. ALERT_THRESHOLD s = Some t \<and> t \<le> count) \<and> 300000 < now - lastAlertTime s) \<and>
    alertCheck count now s =
      (if alertDue count now s
       then s\<lparr>lastAlertTime := now, trace := trace s @ [Emit Broadcast (Alert count (ALERT_THRESHOLD s))]\<rparr>
       else s) \<and>
    alertChecks [(3, base), (6, base + 1000), (7, base + 2000), (2, base + 150000), (8, base + 151000)]
        (initial\<lparr>ALERT_THRESHOLD := Some 5\<rparr>) =
      initial\<lparr>ALERT_THRESHOLD := Some 5, lastAlertTime := base + 1000,
        trace := [Emit Broadcast (Alert 6 (Some 5))]\<rparr> \<and>
    (later \<le> base + 301000 \<longrightarrow>
       alertCheck c later
         (initial\<lparr>ALERT_THRESHOLD := Some 5, lastAlertTime := base + 1000,
            trace := [Emit Broadcast (Alert 6 (Some 5))]\<rparr>) =
       initial\<lparr>ALERT_THRESHOLD := Some 5, lastAlertTime := base + 1000,
         trace := [Emit Broadcast (Alert 6 (Some 5))]\<rparr>) \<and>
    (base + 301000 < later' \<and> 5 \<le> c' \<longrightarrow>
       alertCheck c' later'
         (initial\<lparr>ALERT_THRESHOLD := Some 5, lastAlertTime := base + 1000,
            trace := [Emit Broadcast (Alert 6 (Some 5))]\<rparr>) =
       initial\<lparr>ALERT_THRESHOLD := Some 5, lastAlertTime := later',
         trace := [Emit Broadcast (Alert 6 (Some 5)), Emit Broadcast (Alert c' (Some 5))]\<rparr>)"
proof -
  have due: "alertDue count now s =
      ((\<exists>t. ALERT_THRESHOLD s = Some t \<and> t \<le> count) \<and> 300000 < now - lastAlertTime s)"
    by (cases "ALERT_THRESHOLD s") (simp_all add: alertDue_def ALERT_COOLDOWN_def)
  have chk: "alertCheck count now s =
      (if alertDue count now s
       then s\<lparr>lastAlertTime := now, trace := trace s @ [Emit Broadcast (Alert count (ALERT_THRESHOLD s))]\<rparr>
       else s)"
    by (simp add: alertCheck_def emit_def)
  have b: "300000 < base" using assms by (simp add: ALERT_COOLDOWN_def)
  have run5: "alertChecks [(3, base), (6, base + 1000), (7, base + 2000), (2, base + 150000), (8, base + 151000)]
        (initial\<lparr>ALERT_THRESHOLD := Some 5\<rparr>) =
      initial\<lparr>ALERT_THRESHOLD := Some 5, lastAlertTime := base + 1000,
        trace := [Emit Broadcast (Alert 6 (Some 5))]\<rparr>"
    using b by (simp add: alertChecks_def alertCheck_def alertDue_def ALERT_COOLDOWN_def emit_def initial_def)
  have quiet: "later \<le> base + 301000 \<longrightarrow>
       alertCheck c later
         (initial\<lparr>ALERT_THRESHOLD := Some 5, lastAlertTime := base + 1000,
            trace := [Emit Broadcast (Alert 6 (Some 5))]\<rparr>) =
       initial\<lparr>ALERT_THRESHOLD := Some 5, lastAlertTime := base + 1000,
         trace := [Emit Broadcast (Alert 6 (Some 5))]\<rparr>"
    by (simp add: alertCheck_def alertDue_def ALERT_COOLDOWN_def initial_def)
  have again: "base + 301000 < later' \<and> 5 \<le> c' \<longrightarrow>
       alertCheck c' later'
         (initial\<lparr>ALERT_THRESHOLD := Some 5, lastAlertTime := base + 1000,
            trace := [Emit Broadcast (Alert 6 (Some 5))]\<rparr>) =
       initial\<lparr>ALERT_THRESHOLD := Some 5, lastAlertTime := later',
         trace := [Emit Broadcast (Alert 6 (Some 5)), Emit Broadcast (Alert c' (Some 5))]\<rparr>"
    by (simp add: alertCheck_def alertDue_def ALERT_COOLDOWN_def emit_def initial_def)
  from due chk run5 quiet again show ?thesis by blast
qed

theorem alert_needs_cooldown_strictly_exceeded_witness:
  "ALERT_COOLDOWN < 1000000 \<and>
   alertChecks [(3, 1000000), (6, 1001000), (7, 1002000), (2, 1150000), (8, 1151000)]
       (initial\<lparr>ALERT_THRESHOLD := Some 5\<rparr>) =
     initial\<lparr>ALERT_THRESHOLD := Some 5, lastAlertTime := 1001000,
       trace := [Emit Broadcast (Alert 6 (Some 5))]\<rparr> \<and>
   (1301000::int) \<le> 1000000 + 301000 \<and>
   alertCheck 8 1301000
       (initial\<lparr>ALERT_THRESHOLD := Some 5, lastAlertTime := 1001000,
          trace := [Emit Broadcast (Alert 6 (Some 5))]\<rparr>) =
     initial\<lparr>ALERT_THRESHOLD := Some 5, lastAlertTime := 1001000,
       trace := [Emit Broadcast (Alert 6 (Some 5))]\<rparr> \<and>
   (1000000::int) + 301000 < 1301001 \<and> (5::int) \<le> 8 \<and>
   alertCheck 8 1301001
       (initial\<lparr>ALERT_THRESHOLD := Some 5, lastAlertTime := 1001000,
          trace := [Emit Broadcast (Alert 6 (Some 5))]\<rparr>) =
     initial\<lparr>ALERT_THRESHOLD := Some 5, lastAlertTime := 1301001,
       trace := [Emit Broadcast (Alert 6 (Some 5)), Emit Broadcast (Alert 8 (Some 5))]\<rparr>"
proof -
  have h: "ALERT_COOLDOWN < 1000000" by (simp add: ALERT_COOLDOWN_def)
  show ?thesis
    using h alert_needs_cooldown_strictly_exceeded [OF h, of 8 1301001 initial 1301000 8 1301001 8]
    by simp
qed

text \<open>
  C5 as stated fails where the time since the last alert equals the cooldown: the last
  alert was at 1000 ms, the clock reads 301000 ms, the count 8 has reached the threshold
  5, and the check changes nothing.
\<close>

theorem alert_not_fired_at_exact_cooldown:
  "(5::int) \<le> 8 \<and> (301000::int) - 1000 \<ge> ALERT_COOLDOWN \<and>
   \<not> alertDue 8 301000 (initial\<lparr>ALERT_THRESHOLD := Some 5, lastAlertTime := 1000\<rparr>) \<and>
   alertCheck 8 301000 (initial\<lparr>ALERT_THRESHOLD := Some 5, lastAlertTime := 1000\<rparr>) =
     initial\<lparr>ALERT_THRESHOLD := Some 5, lastAlertTime := 1000\<rparr>"
  by (simp add: alertCheck_def alertDue_def ALERT_COOLDOWN_def initial_def)

text \<open>
  C6, as the code has it. On the live path the reported count is the service's
  \<open>count_objects\<close> when that is supplied and not zero, and the number of detections when
  it is absent or zero; a successful frame broadcasts that count. The \<open>/predict\<close> route
  reports \<open>count_objects\<close> when supplied, zero included, and zero when it is absent.
\<close>

theorem reported_count_defaults_on_falsy:
  "(count_objects ou = Some n \<and> n \<noteq> 0 \<longrightarrow> frameCount (Some ou) = n) \<and>
   (count_objects ou' = None \<or> count_objects ou' = Some 0 \<longrightarrow>
      frameCount (Some ou') = int (length (predictionsOf (Some ou')))) \<and>
   frameCount None = 0 \<and>
   (drawDotsOnImage (decode cfg) b (predictionsOf out) = Inr img \<and>
    generateHeatmap (decode cfg) b (predictionsOf out) = Inr heat \<longrightarrow>
      trace (afterCall cfg b (Inr out) now s) =
        trace (alertCheck (frameCount out) now s)
          @ [Emit Broadcast (PredictionOk (frameCount out) img heat (predictionsOf out) (ALERT_THRESHOLD s))]) \<and>
   predictCount (Some ou) = (case count_objects ou of None \<Rightarrow> 0 | Some c \<Rightarrow> c) \<and>
   predictCount None = 0"
  by (auto simp add: frameCount_def predictCount_def predictionsOf_def afterCall_def Let_def)

theorem reported_count_defaults_on_falsy_witness:
  "count_objects \<lparr>count_objects = Some 7, predictions = Some [PNull]\<rparr> = Some 7 \<and> (7::int) \<noteq> 0 \<and>
   frameCount (Some \<lparr>count_objects = Some 7, predictions = Some [PNull]\<rparr>) = 7 \<and>
   count_objects \<lparr>count_objects = Some 0, predictions = Some [PNull, PNull]\<rparr> = Some 0 \<and>
   frameCount (Some \<lparr>count_objects = Some 0, predictions = Some [PNull, PNull]\<rparr>) = 2 \<and>
   drawDotsOnImage (decode (defaultConfig vga)) ''a'' (predictionsOf None) = Inr [DrawImage, PeopleBox 0] \<and>
   generateHeatmap (decode (defaultConfig vga)) ''a'' (predictionsOf None) = Inr [DrawImage] \<and>
   trace (afterCall (defaultConfig vga) ''a'' (Inr None) 5 initial) =
     [Emit Broadcast (PredictionOk 0 [DrawImage, PeopleBox 0] [DrawImage] [] (Some 15))]"
  using reported_count_defaults_on_falsy [of "\<lparr>count_objects = Some 7, predictions = Some [PNull]\<rparr>" 7
      "\<lparr>count_objects = Some 0, predictions = Some [PNull, PNull]\<rparr>" "defaultConfig vga" "''a''" None
      "[DrawImage, PeopleBox 0]" "[DrawImage]" 5 initial]
  by (simp add: predictionsOf_def drawDotsOnImage_def generateHeatmap_def defaultConfig_def vga_def
      frameCount_def alertCheck_def alertDue_def initial_def)

text \<open>
  C6 as stated fails on the live path: a response with \<open>count_objects = 0\<close> and one
  detection is reported with count 1.
\<close>

theorem explicit_zero_count_is_replaced:
  "frameCount (Some \<lparr>count_objects = Some 0,
      predictions = Some [PObj \<lparr>pred_x = Some 10, pred_y = Some 20, pred_width = Some 4,
                               pred_height = Some 9, pred_confidence = Some (9 / 10)\<rparr>]\<rparr>) = 1"
  by (simp add: frameCount_def predictionsOf_def)

text \<open>
  C7. In the overlay renderer, a detection whose \<open>x\<close> or \<open>y\<close> is absent or zero issues
  no drawing call, and the detections around it are drawn as they are without it. A
  detection with nonzero \<open>x\<close> and \<open>y\<close> and with width 0 and height 0 is drawn as an arc of
  radius exactly 5 at \<open>(x, y)\<close>, labelled at \<open>x + 5 + 2\<close>. For every width and height with
  a product that is not negative the radius is \<open>sqrt (width * height) / 5\<close> clamped to the
  interval from 5 to 20.
\<close>

theorem overlay_skips_zero_coordinates_and_clamps_radius:
  "(pred_x p = None \<or> pred_x p = Some 0 \<or> pred_y p = None \<or> pred_y p = Some 0 \<longrightarrow>
      drawDotCaught (PObj p) = [] \<and>
      (dec b = Inr img \<longrightarrow>
         drawDotsOnImage dec b (ps @ PObj p # qs) =
           Inr ([DrawImage, PeopleBox (Suc (length ps + length qs))]
                @ concat (map drawDotCaught ps) @ concat (map drawDotCaught qs)))) \<and>
   (pred_x q = Some vx \<and> vx \<noteq> 0 \<and> pred_y q = Some vy \<and> vy \<noteq> 0 \<and>
    pred_width q = Some 0 \<and> pred_height q = Some 0 \<longrightarrow>
      drawDotCaught (PObj q) =
        [Arc vx vy (Some 5),
         FillText (Math_round (js_mul (pred_confidence q) (Some 100))) (Some (vx + 5 + 2)) vy]) \<and>
   (pred_width r = Some w \<and> pred_height r = Some h \<and> 0 \<le> w * h \<longrightarrow>
      dotSizeOf r = Some (min 20 (max 5 (sqrt (w * h) / 5))) \<and>
      5 \<le> min 20 (max 5 (sqrt (w * h) / 5)) \<and> min 20 (max 5 (sqrt (w * h) / 5)) \<le> 20)"
proof -
  have skip: "pred_x p = None \<or> pred_x p = Some 0 \<or> pred_y p = None \<or> pred_y p = Some 0 \<longrightarrow>
      drawDotCaught (PObj p) = []"
    by (auto simp add: drawDotCaught_def truthy_def Let_def)
  have rest: "pred_x p = None \<or> pred_x p = Some 0 \<or> pred_y p = None \<or> pred_y p = Some 0 \<longrightarrow>
      (dec b = Inr img \<longrightarrow>
         drawDotsOnImage dec b (ps @ PObj p # qs) =
           Inr ([DrawImage, PeopleBox (Suc (length ps + length qs))]
                @ concat (map drawDotCaught ps) @ concat (map drawDotCaught qs)))"
    using skip by (simp add: drawDotsOnImage_def)
  have small: "pred_x q = Some vx \<and> vx \<noteq> 0 \<and> pred_y q = Some vy \<and> vy \<noteq> 0 \<and>
    pred_width q = Some 0 \<and> pred_height q = Some 0 \<longrightarrow>
      drawDotCaught (PObj q) =
        [Arc vx vy (Some 5),
         FillText (Math_round (js_mul (pred_confidence q) (Some 100))) (Some (vx + 5 + 2)) vy]"
    by (simp add: drawDotCaught_def truthy_def Let_def dotSizeOf_def js_mul_def Math_sqrt_def
        js_div_def Math_max_def Math_min_def js_add_def)
  have clamp: "pred_width r = Some w \<and> pred_height r = Some h \<and> 0 \<le> w * h \<longrightarrow>
      dotSizeOf r = Some (min 20 (max 5 (sqrt (w * h) / 5))) \<and>
      5 \<le> min 20 (max 5 (sqrt (w * h) / 5)) \<and> min 20 (max 5 (sqrt (w * h) / 5)) \<le> 20"
    by (simp add: dotSizeOf_def js_mul_def Math_sqrt_def js_div_def Math_max_def Math_min_def)
  from skip rest small clamp show ?thesis by blast
qed

theorem overlay_skips_zero_coordinates_and_clamps_radius_witness:
  "pred_x \<lparr>pred_x = Some 0, pred_y = Some 20, pred_width = Some 4, pred_height = Some 9,
           pred_confidence = Some (9 / 10)\<rparr> = Some 0 \<and>
   vga ''a'' = Inr (640, 480) \<and>
   drawDotsOnImage vga ''a''
     ([] @ PObj \<lparr>pred_x = Some 0, pred_y = Some 20, pred_width = Some 4, pred_height = Some 9,
                 pred_confidence = Some (9 / 10)\<rparr>
         # [PObj \<lparr>pred_x = Some 10, pred_y = Some 20, pred_width = Some 0, pred_height = Some 0,
                   pred_confidence = Some (9 / 10)\<rparr>]) =
     Inr [DrawImage, PeopleBox 2, Arc 10 20 (Some 5), FillText (Some 90) (Some 17) 20] \<and>
   (10::real) \<noteq> 0 \<and> (20::real) \<noteq> 0 \<and>
   drawDotCaught (PObj \<lparr>pred_x = Some 10, pred_y = Some 20, pred_width = Some 0, pred_height = Some 0,
                         pred_confidence = Some (9 / 10)\<rparr>) =
     [Arc 10 20 (Some 5), FillText (Some 90) (Some 17) 20] \<and>
   (0::real) \<le> 100 * 100 \<and>
   dotSizeOf \<lparr>pred_x = Some 10, pred_y = Some 20, pred_width = Some 100, pred_height = Some 100,
              pred_confidence = Some (9 / 10)\<rparr> = Some 20"
proof -
  have sq: "sqrt (100 * 100) = (100::real)" by simp
  show ?thesis
    using overlay_skips_zero_coordinates_and_clamps_radius
      [of "\<lparr>pred_x = Some 0, pred_y = Some 20, pred_width = Some 4, pred_height = Some 9,
             pred_confidence = Some (9 / 10)\<rparr>"
          vga "''a''" "(640, 480)" "[]"
          "[PObj \<lparr>pred_x = Some 10, pred_y = Some 20, pred_width = Some 0, pred_height = Some 0,
                   pred_confidence = Some (9 / 10)\<rparr>]"
          "\<lparr>pred_x = Some 10, pred_y = Some 20, pred_width = Some 0, pred_height = Some 0,
             pred_confidence = Some (9 / 10)\<rparr>" 10 20
          "\<lparr>pred_x = Some 10, pred_y = Some 20, pred_width = Some 100, pred_height = Some 100,
             pred_confidence = Some (9 / 10)\<rparr>" 100 100]
    by (simp add: vga_def Math_round_def js_mul_def sq del: real_sqrt_four)
qed

text \<open>
  C8 at a failing input: the detections \<open>[null, d]\<close> with \<open>d\<close> at \<open>(10, 20)\<close>. The overlay
  renderer skips the \<open>null\<close> and draws \<open>d\<close>; the heatmap renderer throws on the \<open>null\<close>,
  and the frame is broadcast as failed.
\<close>

theorem heatmap_fails_on_null_detection:
  "drawDotsOnImage vga ''a''
     [PNull, PObj \<lparr>pred_x = Some 10, pred_y = Some 20, pred_width = Some 0, pred_height = Some 0,
                   pred_confidence = Some (9 / 10)\<rparr>] =
     Inr [DrawImage, PeopleBox 2, Arc 10 20 (Some 5), FillText (Some 90) (Some 17) 20] \<and>
   generateHeatmap vga ''a''
     [PNull, PObj \<lparr>pred_x = Some 10, pred_y = Some 20, pred_width = Some 0, pred_height = Some 0,
                   pred_confidence = Some (9 / 10)\<rparr>] = Inl nullPropertyError \<and>
   generateHeatmap vga ''a''
     [PObj \<lparr>pred_x = Some 10, pred_y = Some 20, pred_width = Some 0, pred_height = Some 0,
             pred_confidence = Some (9 / 10)\<rparr>] = Inr [DrawImage, Gradient 10 20 48] \<and>
   trace (afterCall (defaultConfig vga) ''a''
            (Inr (Some \<lparr>count_objects = None,
                        predictions = Some [PNull, PObj \<lparr>pred_x = Some 10, pred_y = Some 20,
                          pred_width = Some 0, pred_height = Some 0, pred_confidence = Some (9 / 10)\<rparr>]\<rparr>))
            0 initial) =
     [Emit Broadcast (PredictionFail nullPropertyError)]"
  by (simp add: drawDotsOnImage_def generateHeatmap_def drawDotCaught_def vga_def truthy_def
      dotSizeOf_def js_mul_def js_add_def js_div_def Math_sqrt_def Math_max_def Math_min_def
      Math_round_def afterCall_def predictionsOf_def frameCount_def alertCheck_def alertDue_def
      thrown_def emit_def initial_def defaultConfig_def nullPropertyError_def)

text \<open>
  C9. A \<open>frame\<close> event with no payload, or with a payload whose \<open>imageBase64\<close> is absent
  or the empty string, sends the submitter the event
  \<open>prediction{success: false, error: 'No frame provided'}\<close> and changes nothing else: no
  ack is sent, and the backlog, the slot counter and the pending calls stay as they were,
  however full the backlog and the slots are.
\<close>

theorem frame_without_image_rejected:
  "frameHandler cfg sock None s =
     s\<lparr>trace := trace s @ [Emit (To sock) (PredictionFail ''No frame provided'')]\<rparr> \<and>
   frameHandler cfg sock (Some Missing) s =
     s\<lparr>trace := trace s @ [Emit (To sock) (PredictionFail ''No frame provided'')]\<rparr> \<and>
   frameHandler cfg sock (Some (Text [])) s =
     s\<lparr>trace := trace s @ [Emit (To sock) (PredictionFail ''No frame provided'')]\<rparr>"
  by (simp add: frameHandler_def truthyField_def emit_def)

theorem frame_without_image_rejected_witness:
  "frameHandler (defaultConfig vga) 4 None (initial\<lparr>inFlight := 2, queue := [(3, Text ''c'')]\<rparr>) =
     initial\<lparr>inFlight := 2, queue := [(3, Text ''c'')],
       trace := [Emit (To 4) (PredictionFail ''No frame provided'')]\<rparr> \<and>
   frameHandler (defaultConfig vga) 4 (Some Missing) initial =
     initial\<lparr>trace := [Emit (To 4) (PredictionFail ''No frame provided'')]\<rparr>"
  using frame_without_image_rejected [of "defaultConfig vga" 4 "initial\<lparr>inFlight := 2, queue := [(3, Text ''c'')]\<rparr>"]
    frame_without_image_rejected [of "defaultConfig vga" 4 initial]
  by (simp add: initial_def)

text \<open>
  C10, as the code has it. An \<open>updateThreshold\<close> event with no payload, or with a
  \<open>threshold\<close> that is absent, the number 0 or the empty string, changes nothing and
  broadcasts nothing. One with a truthy \<open>threshold\<close> sets the threshold to what
  \<open>parseInt\<close> makes of it and broadcasts \<open>thresholdUpdated\<close> with that value.
\<close>

theorem threshold_updated_only_when_truthy:
  "updateThreshold None s = s \<and>
   updateThreshold (Some TAbsent) s = s \<and>
   updateThreshold (Some (TNum 0)) s = s \<and>
   updateThreshold (Some (TStr [])) s = s \<and>
   (truthyThreshold t \<longrightarrow>
      updateThreshold (Some t) s =
        s\<lparr>ALERT_THRESHOLD := parseInt t,
          trace := trace s @ [Emit Broadcast (ThresholdUpdated (parseInt t))]\<rparr>)"
  by (simp add: updateThreshold_def truthyThreshold_def emit_def)

theorem threshold_updated_only_when_truthy_witness:
  "truthyThreshold (TStr ''20'') \<and>
   updateThreshold (Some (TStr ''20'')) initial =
     initial\<lparr>ALERT_THRESHOLD := Some 20, trace := [Emit Broadcast (ThresholdUpdated (Some 20))]\<rparr> \<and>
   updateThreshold (Some (TNum 0)) initial = initial"
  using threshold_updated_only_when_truthy [of initial "TStr ''20''"]
  by (simp add: truthyThreshold_def parseInt_def parseIntString_def isWhiteSpace_def digitValue_def
      initial_def)

text \<open>
  C10 as stated fails in its last part: the string \<open>0\<close> is truthy and \<open>parseInt\<close> reads
  it as 0, so the event sets the threshold to 0 and broadcasts it.
\<close>

theorem threshold_set_to_zero_by_string:
  "truthyThreshold (TStr ''0'') \<and>
   updateThreshold (Some (TStr ''0'')) initial =
     initial\<lparr>ALERT_THRESHOLD := Some 0, trace := [Emit Broadcast (ThresholdUpdated (Some 0))]\<rparr>"
  by (simp add: updateThreshold_def truthyThreshold_def parseInt_def parseIntString_def
      isWhiteSpace_def digitValue_def emit_def initial_def)

end
